theory Spec2Isabelle
  imports Main "HOL-Library.Monad_Syntax" "HOL-Library.Multiset" "HOL-Library.Word"
begin

section \<open>Node storage\<close>

text \<open>
  \<^verbatim>\<open>enum Node_color { Red = false, Black = true }\<close> and \<^verbatim>\<open>struct Node\<close>
  (s21_red_black_tree.h, lines 17-33).  The store keeps one map per field of
  \<^verbatim>\<open>struct Node\<close> (val, color, left, right, p), indexed by the node's address;
  address 0 is \<^verbatim>\<open>nullptr\<close>.  \<open>n_live\<close> says which addresses hold a constructed node:
  reading or writing a field of any other address is a fault, and every operation
  below returns \<open>None\<close> when it faults or when a loop of the source does not end.
  The allocator hands out the addresses \<open>brk\<close>, \<open>brk + 1\<close>, ... in turn; \<open>script\<close> lists
  the outcomes of the coming calls of \<^verbatim>\<open>create_node\<close> (\<open>True\<close>: the call throws).
\<close>

datatype Node_color = Red | Black

datatype error = Bad_alloc

record 'v mem =
  n_live :: "nat \<Rightarrow> bool"
  n_val :: "nat \<Rightarrow> 'v"
  n_color :: "nat \<Rightarrow> Node_color"
  n_left :: "nat \<Rightarrow> nat"
  n_right :: "nat \<Rightarrow> nat"
  n_p :: "nat \<Rightarrow> nat"
  brk :: nat
  script :: "bool list"

text \<open>The members \<^verbatim>\<open>root\<close>, \<^verbatim>\<open>nil_\<close> and \<^verbatim>\<open>node_count\<close> (a \<^verbatim>\<open>size_t\<close>) of
  \<^verbatim>\<open>class Rb_tree\<close>.\<close>

record rb_tree =
  root :: nat
  nil :: nat
  node_count :: "64 word"

definition mem0 :: "bool list \<Rightarrow> 'v mem" where
  "mem0 sc = \<lparr>n_live = (\<lambda>_. False), n_val = (\<lambda>_. undefined), n_color = (\<lambda>_. Red),
     n_left = (\<lambda>_. 0), n_right = (\<lambda>_. 0), n_p = (\<lambda>_. 0), brk = 1, script = sc\<rparr>"

definition rd :: "('v mem \<Rightarrow> nat \<Rightarrow> 'a) \<Rightarrow> 'v mem \<Rightarrow> nat \<Rightarrow> 'a option" where
  "rd f m a = (if n_live m a then Some (f m a) else None)"

definition wr_color :: "nat \<Rightarrow> Node_color \<Rightarrow> 'v mem \<Rightarrow> 'v mem option" where
  "wr_color a c m = (if n_live m a then Some (m\<lparr>n_color := (n_color m)(a := c)\<rparr>) else None)"

definition wr_left :: "nat \<Rightarrow> nat \<Rightarrow> 'v mem \<Rightarrow> 'v mem option" where
  "wr_left a b m = (if n_live m a then Some (m\<lparr>n_left := (n_left m)(a := b)\<rparr>) else None)"

definition wr_right :: "nat \<Rightarrow> nat \<Rightarrow> 'v mem \<Rightarrow> 'v mem option" where
  "wr_right a b m = (if n_live m a then Some (m\<lparr>n_right := (n_right m)(a := b)\<rparr>) else None)"

definition wr_p :: "nat \<Rightarrow> nat \<Rightarrow> 'v mem \<Rightarrow> 'v mem option" where
  "wr_p a b m = (if n_live m a then Some (m\<lparr>n_p := (n_p m)(a := b)\<rparr>) else None)"

text \<open>\<^verbatim>\<open>create_node\<close> (lines 538-547): allocate, then construct with the defaults of
  \<^verbatim>\<open>Node(V val = V(), Node_color color = Red, left = nullptr, right = nullptr, p = nullptr)\<close>;
  a throw leaves no storage behind.\<close>

definition create_node :: "'v mem \<Rightarrow> 'v \<Rightarrow> (error + nat) \<times> 'v mem" where
  "create_node m v =
     (case script m of
        True # rest \<Rightarrow> (Inl Bad_alloc, m\<lparr>script := rest\<rparr>)
      | _ \<Rightarrow> (Inr (brk m),
              m\<lparr>n_live := (n_live m)(brk m := True),
                n_val := (n_val m)(brk m := v),
                n_color := (n_color m)(brk m := Red),
                n_left := (n_left m)(brk m := 0),
                n_right := (n_right m)(brk m := 0),
                n_p := (n_p m)(brk m := 0),
                brk := Suc (brk m),
                script := tl (script m)\<rparr>))"

text \<open>\<^verbatim>\<open>destroy_node\<close> (lines 503-506).\<close>

definition destroy_node :: "nat \<Rightarrow> 'v mem \<Rightarrow> 'v mem option" where
  "destroy_node a m = (if n_live m a then Some (m\<lparr>n_live := (n_live m)(a := False)\<rparr>) else None)"

section \<open>The tree engine\<close>

text \<open>The default constructor \<^verbatim>\<open>Rb_tree()\<close> (lines 77-82); \<open>dflt\<close> is \<^verbatim>\<open>value_type()\<close>.\<close>

definition Rb_tree :: "'v \<Rightarrow> 'v mem \<Rightarrow> ((error + rb_tree) \<times> 'v mem) option" where
  "Rb_tree dflt m =
     (case create_node m dflt of
        (Inl e, m) \<Rightarrow> Some (Inl e, m)
      | (Inr a, m) \<Rightarrow> do {
          m \<leftarrow> wr_color a Black m;
          m \<leftarrow> wr_p a a m;
          m \<leftarrow> wr_right a a m;
          m \<leftarrow> wr_left a a m;
          Some (Inr \<lparr>root = a, nil = a, node_count = 0\<rparr>, m) })"

text \<open>\<^verbatim>\<open>minimum\<close> and \<^verbatim>\<open>maximum\<close> (lines 246-277).\<close>

partial_function (option) minimum :: "'v mem \<Rightarrow> nat \<Rightarrow> nat \<Rightarrow> nat option" where
  "minimum m nl sub_tree = do {
     l \<leftarrow> rd n_left m sub_tree;
     if l \<noteq> nl then minimum m nl l else Some sub_tree }"

declare minimum.simps [code]

partial_function (option) maximum :: "'v mem \<Rightarrow> nat \<Rightarrow> nat \<Rightarrow> nat option" where
  "maximum m nl sub_tree = do {
     r \<leftarrow> rd n_right m sub_tree;
     if r \<noteq> nl then maximum m nl r else Some sub_tree }"

declare maximum.simps [code]

text \<open>\<^verbatim>\<open>begin()\<close> and \<^verbatim>\<open>end()\<close> (lines 147-153); an iterator is the address of its
  current node.\<close>

definition begin_it :: "'v mem \<Rightarrow> rb_tree \<Rightarrow> nat option" where
  "begin_it m t = minimum m (nil t) (root t)"

definition end_it :: "rb_tree \<Rightarrow> nat" where
  "end_it t = nil t"

text \<open>\<^verbatim>\<open>search\<close> (lines 285-297).  \<open>kov\<close> is the key-extraction functor, \<^verbatim>\<open>comp\<close> is
  \<open>(<)\<close> of the key type.\<close>

partial_function (option) search_loop ::
  "('v \<Rightarrow> 'k::linorder) \<Rightarrow> 'v mem \<Rightarrow> nat \<Rightarrow> 'k \<Rightarrow> nat \<Rightarrow> 'k \<Rightarrow> nat option" where
  "search_loop kov m nl key res node_key =
     (if res \<noteq> nl \<and> key \<noteq> node_key then do {
        res' \<leftarrow> (if key < node_key then rd n_left m res else rd n_right m res);
        v \<leftarrow> rd n_val m res';
        search_loop kov m nl key res' (kov v) }
      else Some res)"

declare search_loop.simps [code]

definition search :: "('v \<Rightarrow> 'k::linorder) \<Rightarrow> 'v mem \<Rightarrow> rb_tree \<Rightarrow> 'k \<Rightarrow> nat option" where
  "search kov m t key = do {
     v \<leftarrow> rd n_val m (root t);
     search_loop kov m (nil t) key (root t) (kov v) }"

text \<open>\<^verbatim>\<open>lower_bound\<close> (lines 306-322).\<close>

partial_function (option) lower_bound_loop ::
  "('v \<Rightarrow> 'k::linorder) \<Rightarrow> 'v mem \<Rightarrow> nat \<Rightarrow> 'k \<Rightarrow> nat \<Rightarrow> nat \<Rightarrow> 'k \<Rightarrow> (nat \<times> nat) option" where
  "lower_bound_loop kov m nl key res prev node_key =
     (if res \<noteq> nl \<and> key \<noteq> node_key then do {
        res' \<leftarrow> (if key < node_key then rd n_left m res else rd n_right m res);
        v \<leftarrow> rd n_val m res';
        lower_bound_loop kov m nl key res' res (kov v) }
      else Some (res, prev))"

declare lower_bound_loop.simps [code]

definition lower_bound :: "('v \<Rightarrow> 'k::linorder) \<Rightarrow> 'v mem \<Rightarrow> rb_tree \<Rightarrow> 'k \<Rightarrow> nat option" where
  "lower_bound kov m t key = do {
     v \<leftarrow> rd n_val m (root t);
     (res, prev) \<leftarrow> lower_bound_loop kov m (nil t) key (root t) (root t) (kov v);
     if res = nil t then do {
       pv \<leftarrow> rd n_val m prev;
       Some (if key < kov pv then prev else res) }
     else Some res }"

text \<open>\<^verbatim>\<open>left_rotate\<close> and \<^verbatim>\<open>right_rotate\<close> (lines 668-724).\<close>

definition left_rotate :: "'v mem \<Rightarrow> rb_tree \<Rightarrow> nat \<Rightarrow> ('v mem \<times> rb_tree) option" where
  "left_rotate m t parent_node = do {
     child \<leftarrow> rd n_right m parent_node;
     cl \<leftarrow> rd n_left m child;
     m \<leftarrow> wr_right parent_node cl m;
     m \<leftarrow> (if cl \<noteq> nil t then wr_p cl parent_node m else Some m);
     pp \<leftarrow> rd n_p m parent_node;
     m \<leftarrow> wr_p child pp m;
     (m, t) \<leftarrow> (if pp = nil t then Some (m, t\<lparr>root := child\<rparr>)
               else do {
                 ppl \<leftarrow> rd n_left m pp;
                 if parent_node = ppl then do { m \<leftarrow> wr_left pp child m; Some (m, t) }
                 else do { m \<leftarrow> wr_right pp child m; Some (m, t) } });
     m \<leftarrow> wr_left child parent_node m;
     m \<leftarrow> wr_p parent_node child m;
     Some (m, t) }"

definition right_rotate :: "'v mem \<Rightarrow> rb_tree \<Rightarrow> nat \<Rightarrow> ('v mem \<times> rb_tree) option" where
  "right_rotate m t parent_node = do {
     child \<leftarrow> rd n_left m parent_node;
     cr \<leftarrow> rd n_right m child;
     m \<leftarrow> wr_left parent_node cr m;
     m \<leftarrow> (if cr \<noteq> nil t then wr_p cr parent_node m else Some m);
     pp \<leftarrow> rd n_p m parent_node;
     m \<leftarrow> wr_p child pp m;
     (m, t) \<leftarrow> (if pp = nil t then Some (m, t\<lparr>root := child\<rparr>)
               else do {
                 ppr \<leftarrow> rd n_right m pp;
                 if parent_node = ppr then do { m \<leftarrow> wr_right pp child m; Some (m, t) }
                 else do { m \<leftarrow> wr_left pp child m; Some (m, t) } });
     m \<leftarrow> wr_right child parent_node m;
     m \<leftarrow> wr_p parent_node child m;
     Some (m, t) }"

text \<open>\<^verbatim>\<open>rebalance_left\<close>, \<^verbatim>\<open>rebalance_right\<close> and \<^verbatim>\<open>insert_fixup\<close> (lines 596-661).\<close>

definition rebalance_left :: "'v mem \<Rightarrow> rb_tree \<Rightarrow> nat \<Rightarrow> ('v mem \<times> rb_tree \<times> nat) option" where
  "rebalance_left m t node = do {
     np \<leftarrow> rd n_p m node;
     npp \<leftarrow> rd n_p m np;
     temp \<leftarrow> rd n_right m npp;
     tc \<leftarrow> rd n_color m temp;
     if tc = Red then do {
       m \<leftarrow> wr_color np Black m;
       m \<leftarrow> wr_color temp Black m;
       m \<leftarrow> wr_color npp Red m;
       Some (m, t, npp) }
     else do {
       npr \<leftarrow> rd n_right m np;
       (m, t, node) \<leftarrow> (if node = npr then do {
                          (m, t) \<leftarrow> left_rotate m t np;
                          Some (m, t, np) }
                        else Some (m, t, node));
       np \<leftarrow> rd n_p m node;
       m \<leftarrow> wr_color np Black m;
       npp \<leftarrow> rd n_p m np;
       m \<leftarrow> wr_color npp Red m;
       (m, t) \<leftarrow> right_rotate m t npp;
       Some (m, t, node) } }"

definition rebalance_right :: "'v mem \<Rightarrow> rb_tree \<Rightarrow> nat \<Rightarrow> ('v mem \<times> rb_tree \<times> nat) option" where
  "rebalance_right m t node = do {
     np \<leftarrow> rd n_p m node;
     npp \<leftarrow> rd n_p m np;
     temp \<leftarrow> rd n_left m npp;
     tc \<leftarrow> rd n_color m temp;
     if tc = Red then do {
       m \<leftarrow> wr_color np Black m;
       m \<leftarrow> wr_color temp Black m;
       m \<leftarrow> wr_color npp Red m;
       Some (m, t, npp) }
     else do {
       npl \<leftarrow> rd n_left m np;
       (m, t, node) \<leftarrow> (if node = npl then do {
                          (m, t) \<leftarrow> right_rotate m t np;
                          Some (m, t, np) }
                        else Some (m, t, node));
       np \<leftarrow> rd n_p m node;
       m \<leftarrow> wr_color np Black m;
       npp \<leftarrow> rd n_p m np;
       m \<leftarrow> wr_color npp Red m;
       (m, t) \<leftarrow> left_rotate m t npp;
       Some (m, t, node) } }"

partial_function (option) insert_fixup_loop ::
  "'v mem \<Rightarrow> rb_tree \<Rightarrow> nat \<Rightarrow> ('v mem \<times> rb_tree) option" where
  "insert_fixup_loop m t node = do {
     np \<leftarrow> rd n_p m node;
     c \<leftarrow> rd n_color m np;
     if c = Red then do {
       npp \<leftarrow> rd n_p m np;
       nppl \<leftarrow> rd n_left m npp;
       (m, t, node) \<leftarrow> (if np = nppl then rebalance_left m t node else rebalance_right m t node);
       insert_fixup_loop m t node }
     else Some (m, t) }"

declare insert_fixup_loop.simps [code]

definition insert_fixup :: "'v mem \<Rightarrow> rb_tree \<Rightarrow> nat \<Rightarrow> ('v mem \<times> rb_tree) option" where
  "insert_fixup m t node = do {
     (m, t) \<leftarrow> insert_fixup_loop m t node;
     m \<leftarrow> wr_color (root t) Black m;
     Some (m, t) }"

text \<open>\<^verbatim>\<open>link_new_node\<close> (lines 513-529).\<close>

definition link_new_node ::
  "('v \<Rightarrow> 'k::linorder) \<Rightarrow> 'v mem \<Rightarrow> rb_tree \<Rightarrow> nat \<Rightarrow> nat \<Rightarrow> ('v mem \<times> rb_tree) option" where
  "link_new_node kov m t father new_node = do {
     m \<leftarrow> wr_right new_node (nil t) m;
     m \<leftarrow> wr_left new_node (nil t) m;
     if father = nil t then do {
       m \<leftarrow> wr_p new_node (nil t) m;
       m \<leftarrow> wr_color new_node Black m;
       Some (m, t\<lparr>root := new_node\<rparr>) }
     else do {
       m \<leftarrow> wr_p new_node father m;
       nv \<leftarrow> rd n_val m new_node;
       fv \<leftarrow> rd n_val m father;
       m \<leftarrow> (if kov nv < kov fv then wr_left father new_node m else wr_right father new_node m);
       Some (m, t) } }"

text \<open>The parent search shared by \<^verbatim>\<open>find_or_create\<close> (lines 561-581) and
  \<^verbatim>\<open>insert_node\<close> (lines 371-390): it returns \<^verbatim>\<open>father\<close>, \<^verbatim>\<open>current\<close> and
  \<^verbatim>\<open>created\<close> as the loop leaves them.\<close>

partial_function (option) find_father ::
  "('v \<Rightarrow> 'k::linorder) \<Rightarrow> 'v mem \<Rightarrow> nat \<Rightarrow> 'k \<Rightarrow> bool \<Rightarrow> nat \<Rightarrow> nat \<Rightarrow> (nat \<times> nat \<times> bool) option" where
  "find_father kov m nl key unique_keys father current =
     (if current \<noteq> nl then do {
        cv \<leftarrow> rd n_val m current;
        if unique_keys \<and> \<not> key < kov cv \<and> \<not> kov cv < key then Some (current, current, False)
        else if key < kov cv then do {
          l \<leftarrow> rd n_left m current;
          find_father kov m nl key unique_keys current l }
        else do {
          r \<leftarrow> rd n_right m current;
          find_father kov m nl key unique_keys current r } }
      else Some (father, current, True))"

declare find_father.simps [code]

text \<open>\<^verbatim>\<open>find_or_create\<close> (lines 559-590); the result carries \<^verbatim>\<open>created\<close>.\<close>

definition find_or_create ::
  "('v \<Rightarrow> 'k::linorder) \<Rightarrow> 'v mem \<Rightarrow> rb_tree \<Rightarrow> 'k \<Rightarrow> 'v \<Rightarrow> bool
     \<Rightarrow> ((error + nat \<times> bool) \<times> 'v mem \<times> rb_tree) option" where
  "find_or_create kov m t key v unique_keys = do {
     (father, current, created) \<leftarrow> find_father kov m (nil t) key unique_keys (nil t) (root t);
     if created then
       (case create_node m v of
          (Inl e, m) \<Rightarrow> Some (Inl e, m, t)
        | (Inr new_node, m) \<Rightarrow> do {
            (m, t) \<leftarrow> link_new_node kov m t father new_node;
            Some (Inr (new_node, True), m, t) })
     else Some (Inr (current, False), m, t) }"

text \<open>The guard of \<^verbatim>\<open>insert\<close> and \<^verbatim>\<open>insert_node\<close> before \<^verbatim>\<open>insert_fixup\<close>
  (lines 189 and 395), with the short-circuit order of \<^verbatim>\<open>&&\<close>.\<close>

definition fixup_needed :: "'v mem \<Rightarrow> rb_tree \<Rightarrow> nat \<Rightarrow> bool option" where
  "fixup_needed m t node = do {
     np \<leftarrow> rd n_p m node;
     if np \<noteq> nil t then do {
       c \<leftarrow> rd n_color m np;
       if c = Red then do { npp \<leftarrow> rd n_p m np; Some (npp \<noteq> nil t) }
       else Some False }
     else Some False }"

text \<open>\<^verbatim>\<open>insert\<close> (lines 183-195).\<close>

definition insert ::
  "('v \<Rightarrow> 'k::linorder) \<Rightarrow> 'v mem \<Rightarrow> rb_tree \<Rightarrow> 'k \<Rightarrow> 'v \<Rightarrow> bool
     \<Rightarrow> ((error + nat \<times> bool) \<times> 'v mem \<times> rb_tree) option" where
  "insert kov m t key v unique_keys = do {
     (r, m, t) \<leftarrow> find_or_create kov m t key v unique_keys;
     case r of
       Inl e \<Rightarrow> Some (Inl e, m, t)
     | Inr (node, created) \<Rightarrow>
         if created then do {
           b \<leftarrow> fixup_needed m t node;
           (m, t) \<leftarrow> (if b then insert_fixup m t node else Some (m, t));
           Some (Inr (node, created), m, t\<lparr>node_count := node_count t + 1\<rparr>) }
         else Some (Inr (node, created), m, t) }"

text \<open>\<^verbatim>\<open>insert_node\<close> (lines 368-400).\<close>

definition insert_node ::
  "('v \<Rightarrow> 'k::linorder) \<Rightarrow> 'v mem \<Rightarrow> rb_tree \<Rightarrow> nat \<Rightarrow> bool \<Rightarrow> (bool \<times> 'v mem \<times> rb_tree) option" where
  "insert_node kov m t node unique_keys = do {
     nv \<leftarrow> rd n_val m node;
     (father, current, created) \<leftarrow> find_father kov m (nil t) (kov nv) unique_keys (nil t) (root t);
     if created then do {
       (m, t) \<leftarrow> link_new_node kov m t father node;
       b \<leftarrow> fixup_needed m t node;
       (m, t) \<leftarrow> (if b then insert_fixup m t node else Some (m, t));
       Some (created, m, t) }
     else Some (created, m, t) }"

text \<open>\<^verbatim>\<open>transplant\<close> (lines 732-742).\<close>

definition transplant :: "'v mem \<Rightarrow> rb_tree \<Rightarrow> nat \<Rightarrow> nat \<Rightarrow> ('v mem \<times> rb_tree) option" where
  "transplant m t u v = do {
     up \<leftarrow> rd n_p m u;
     (m, t) \<leftarrow> (if up = nil t then Some (m, t\<lparr>root := v\<rparr>)
               else do {
                 upl \<leftarrow> rd n_left m up;
                 if u = upl then do { m \<leftarrow> wr_left up v m; Some (m, t) }
                 else do { m \<leftarrow> wr_right up v m; Some (m, t) } });
     up \<leftarrow> rd n_p m u;
     m \<leftarrow> wr_p v up m;
     Some (m, t) }"

text \<open>\<^verbatim>\<open>delete_fixup_left\<close>, \<^verbatim>\<open>delete_fixup_right\<close> and \<^verbatim>\<open>delete_fixup\<close>
  (lines 748-822).\<close>

definition delete_fixup_left :: "'v mem \<Rightarrow> rb_tree \<Rightarrow> nat \<Rightarrow> ('v mem \<times> rb_tree \<times> nat) option" where
  "delete_fixup_left m t x = do {
     xp \<leftarrow> rd n_p m x;
     w \<leftarrow> rd n_right m xp;
     wc \<leftarrow> rd n_color m w;
     (m, t, w) \<leftarrow> (if wc = Red then do {
                     m \<leftarrow> wr_color w Black m;
                     xp \<leftarrow> rd n_p m x;
                     m \<leftarrow> wr_color xp Red m;
                     (m, t) \<leftarrow> left_rotate m t xp;
                     xp \<leftarrow> rd n_p m x;
                     w \<leftarrow> rd n_right m xp;
                     Some (m, t, w) }
                   else Some (m, t, w));
     wl \<leftarrow> rd n_left m w;
     wlc \<leftarrow> rd n_color m wl;
     wr \<leftarrow> rd n_right m w;
     wrc \<leftarrow> rd n_color m wr;
     if wlc = Black \<and> wrc = Black then do {
       m \<leftarrow> wr_color w Red m;
       xp \<leftarrow> rd n_p m x;
       Some (m, t, xp) }
     else do {
       (m, t, w) \<leftarrow> (if wrc = Black then do {
                       m \<leftarrow> wr_color wl Black m;
                       m \<leftarrow> wr_color w Red m;
                       (m, t) \<leftarrow> right_rotate m t w;
                       xp \<leftarrow> rd n_p m x;
                       w \<leftarrow> rd n_right m xp;
                       Some (m, t, w) }
                     else Some (m, t, w));
       xp \<leftarrow> rd n_p m x;
       xpc \<leftarrow> rd n_color m xp;
       m \<leftarrow> wr_color w xpc m;
       wr \<leftarrow> rd n_right m w;
       m \<leftarrow> wr_color wr Black m;
       m \<leftarrow> wr_color xp Black m;
       (m, t) \<leftarrow> left_rotate m t xp;
       Some (m, t, root t) } }"

definition delete_fixup_right :: "'v mem \<Rightarrow> rb_tree \<Rightarrow> nat \<Rightarrow> ('v mem \<times> rb_tree \<times> nat) option" where
  "delete_fixup_right m t x = do {
     xp \<leftarrow> rd n_p m x;
     w \<leftarrow> rd n_left m xp;
     wc \<leftarrow> rd n_color m w;
     (m, t, w) \<leftarrow> (if wc = Red then do {
                     m \<leftarrow> wr_color w Black m;
                     xp \<leftarrow> rd n_p m x;
                     m \<leftarrow> wr_color xp Red m;
                     (m, t) \<leftarrow> right_rotate m t xp;
                     xp \<leftarrow> rd n_p m x;
                     w \<leftarrow> rd n_left m xp;
                     Some (m, t, w) }
                   else Some (m, t, w));
     wr \<leftarrow> rd n_right m w;
     wrc \<leftarrow> rd n_color m wr;
     wl \<leftarrow> rd n_left m w;
     wlc \<leftarrow> rd n_color m wl;
     if wrc = Black \<and> wlc = Black then do {
       m \<leftarrow> wr_color w Red m;
       xp \<leftarrow> rd n_p m x;
       Some (m, t, xp) }
     else do {
       (m, t, w) \<leftarrow> (if wlc = Black then do {
                       m \<leftarrow> wr_color wr Black m;
                       m \<leftarrow> wr_color w Red m;
                       (m, t) \<leftarrow> left_rotate m t w;
                       xp \<leftarrow> rd n_p m x;
                       w \<leftarrow> rd n_left m xp;
                       Some (m, t, w) }
                     else Some (m, t, w));
       xp \<leftarrow> rd n_p m x;
       xpc \<leftarrow> rd n_color m xp;
       m \<leftarrow> wr_color w xpc m;
       wl \<leftarrow> rd n_left m w;
       m \<leftarrow> wr_color wl Black m;
       m \<leftarrow> wr_color xp Black m;
       (m, t) \<leftarrow> right_rotate m t xp;
       Some (m, t, root t) } }"

partial_function (option) delete_fixup_loop ::
  "'v mem \<Rightarrow> rb_tree \<Rightarrow> nat \<Rightarrow> ('v mem \<times> rb_tree \<times> nat) option" where
  "delete_fixup_loop m t x =
     (if x \<noteq> root t then do {
        c \<leftarrow> rd n_color m x;
        if c = Black then do {
          xp \<leftarrow> rd n_p m x;
          xpl \<leftarrow> rd n_left m xp;
          (m, t, x) \<leftarrow> (if x = xpl then delete_fixup_left m t x else delete_fixup_right m t x);
          delete_fixup_loop m t x }
        else Some (m, t, x) }
      else Some (m, t, x))"

declare delete_fixup_loop.simps [code]

definition delete_fixup :: "'v mem \<Rightarrow> rb_tree \<Rightarrow> nat \<Rightarrow> ('v mem \<times> rb_tree) option" where
  "delete_fixup m t x = do {
     (m, t, x) \<leftarrow> delete_fixup_loop m t x;
     m \<leftarrow> wr_color x Black m;
     Some (m, t) }"

text \<open>\<^verbatim>\<open>delete_node\<close> (lines 201-239).\<close>

definition delete_node :: "'v mem \<Rightarrow> rb_tree \<Rightarrow> nat \<Rightarrow> ('v mem \<times> rb_tree) option" where
  "delete_node m t z =
     (if z = nil t then Some (m, t)
      else do {
        zc \<leftarrow> rd n_color m z;
        zl \<leftarrow> rd n_left m z;
        (m, t, x, y_original_color) \<leftarrow>
          (if zl = nil t then do {
             x \<leftarrow> rd n_right m z;
             (m, t) \<leftarrow> transplant m t z x;
             Some (m, t, x, zc) }
           else do {
             zr \<leftarrow> rd n_right m z;
             if zr = nil t then do {
               (m, t) \<leftarrow> transplant m t z zl;
               Some (m, t, zl, zc) }
             else do {
               y \<leftarrow> minimum m (nil t) zr;
               yc \<leftarrow> rd n_color m y;
               x \<leftarrow> rd n_right m y;
               (m, t) \<leftarrow> (if y \<noteq> zr then do {
                            (m, t) \<leftarrow> transplant m t y x;
                            zr \<leftarrow> rd n_right m z;
                            m \<leftarrow> wr_right y zr m;
                            m \<leftarrow> wr_p zr y m;
                            Some (m, t) }
                          else do {
                            m \<leftarrow> wr_p x y m;
                            Some (m, t) });
               (m, t) \<leftarrow> transplant m t z y;
               zl \<leftarrow> rd n_left m z;
               m \<leftarrow> wr_left y zl m;
               m \<leftarrow> wr_p zl y m;
               zc \<leftarrow> rd n_color m z;
               m \<leftarrow> wr_color y zc m;
               Some (m, t, x, yc) } });
        m \<leftarrow> destroy_node z m;
        (m, t) \<leftarrow> (if y_original_color = Black then delete_fixup m (t\<lparr>node_count := node_count t - 1\<rparr>) x
                  else Some (m, t\<lparr>node_count := node_count t - 1\<rparr>));
        Some (m, t) })"

text \<open>\<^verbatim>\<open>post_order_process\<close> (lines 408-441).  The state is the store together
  with whatever the action owns.\<close>

partial_function (option) post_order_loop ::
  "(nat \<Rightarrow> 'v mem \<times> 'x \<Rightarrow> ('v mem \<times> 'x) option) \<Rightarrow> nat \<Rightarrow> nat \<Rightarrow> 'v mem \<times> 'x
     \<Rightarrow> ('v mem \<times> 'x) option" where
  "post_order_loop action nl current s =
     (if current \<noteq> nl then do {
        l \<leftarrow> rd n_left (fst s) current;
        if l \<noteq> nl then post_order_loop action nl l s
        else do {
          r \<leftarrow> rd n_right (fst s) current;
          if r \<noteq> nl then post_order_loop action nl r s
          else do {
            parent \<leftarrow> rd n_p (fst s) current;
            m \<leftarrow> (if parent \<noteq> nl then do {
                     pl \<leftarrow> rd n_left (fst s) parent;
                     if current = pl then wr_left parent nl (fst s)
                     else wr_right parent nl (fst s) }
                   else Some (fst s));
            m \<leftarrow> wr_color current Red m;
            s' \<leftarrow> action current (m, snd s);
            post_order_loop action nl parent s' } } }
      else Some s)"

declare post_order_loop.simps [code]

definition post_order_process ::
  "(nat \<Rightarrow> 'v mem \<times> 'x \<Rightarrow> ('v mem \<times> 'x) option) \<Rightarrow> nat \<Rightarrow> nat \<Rightarrow> 'v mem \<times> 'x
     \<Rightarrow> ('v mem \<times> 'x) option" where
  "post_order_process action subtree_root nl s =
     (if subtree_root = nl then Some s else post_order_loop action nl subtree_root s)"

text \<open>\<^verbatim>\<open>destroy_subtree\<close> and \<^verbatim>\<open>clear\<close> (lines 169-173, 493-497).\<close>

definition destroy_subtree :: "'v mem \<Rightarrow> rb_tree \<Rightarrow> nat \<Rightarrow> nat \<Rightarrow> 'v mem option" where
  "destroy_subtree m t subtree_root nl = do {
     (m, u) \<leftarrow> post_order_process
                 (\<lambda>node (m, u). if node \<noteq> nil t then do { m \<leftarrow> destroy_node node m; Some (m, u) }
                                else Some (m, u))
                 subtree_root nl (m, ());
     Some m }"

definition clear :: "'v mem \<Rightarrow> rb_tree \<Rightarrow> ('v mem \<times> rb_tree) option" where
  "clear m t = do {
     m \<leftarrow> destroy_subtree m t (root t) (nil t);
     Some (m, t\<lparr>root := nil t, node_count := 0\<rparr>) }"

text \<open>\<^verbatim>\<open>merge\<close> (lines 330-349), for \<^verbatim>\<open>this\<close> and \<^verbatim>\<open>other\<close> two different trees
  (the facades call it under \<^verbatim>\<open>this != &other\<close>).\<close>

definition merge_action ::
  "('v \<Rightarrow> 'k::linorder) \<Rightarrow> bool \<Rightarrow> nat \<Rightarrow> 'v mem \<times> rb_tree \<times> rb_tree
     \<Rightarrow> ('v mem \<times> rb_tree \<times> rb_tree) option" where
  "merge_action kov unique_keys node s =
     (case s of (m, this, other) \<Rightarrow> do {
        (created, m, this) \<leftarrow> insert_node kov m this node unique_keys;
        if created then Some (m, this\<lparr>node_count := node_count this + 1\<rparr>, other)
        else do {
          (created', m, other) \<leftarrow> insert_node kov m other node unique_keys;
          Some (m, this, other\<lparr>node_count := node_count other + 1\<rparr>) } })"

definition merge ::
  "('v \<Rightarrow> 'k::linorder) \<Rightarrow> 'v mem \<Rightarrow> rb_tree \<Rightarrow> rb_tree \<Rightarrow> bool
     \<Rightarrow> ('v mem \<times> rb_tree \<times> rb_tree) option" where
  "merge kov m this other unique_keys = do {
     m \<leftarrow> wr_p (root other) (nil other) m;
     m \<leftarrow> wr_p (nil other) (nil other) m;
     if root other = nil other then Some (m, this, other\<lparr>root := nil other, node_count := 0\<rparr>)
     else post_order_process (merge_action kov unique_keys) (root other) (nil other)
            (m, this, other\<lparr>root := nil other, node_count := 0\<rparr>) }"

text \<open>The iterators' \<^verbatim>\<open>increment\<close> and \<^verbatim>\<open>decrement\<close> (lines 883-919, and the same
  code for the const iterator, lines 980-1016).  The inner descent
  \<^verbatim>\<open>while (current->left != nil) current = current->left\<close> is the loop of \<^verbatim>\<open>minimum\<close>.\<close>

partial_function (option) increment_up :: "'v mem \<Rightarrow> nat \<Rightarrow> nat \<Rightarrow> nat \<Rightarrow> nat option" where
  "increment_up m nl current father =
     (if father \<noteq> nl then do {
        fr \<leftarrow> rd n_right m father;
        if current = fr then do {
          fp \<leftarrow> rd n_p m father;
          increment_up m nl father fp }
        else Some father }
      else Some father)"

declare increment_up.simps [code]

definition increment :: "'v mem \<Rightarrow> rb_tree \<Rightarrow> nat \<Rightarrow> nat option" where
  "increment m t current =
     (if current = nil t then minimum m (nil t) (root t)
      else do {
        r \<leftarrow> rd n_right m current;
        if r \<noteq> nil t then minimum m (nil t) r
        else do {
          father \<leftarrow> rd n_p m current;
          increment_up m (nil t) current father } })"

partial_function (option) decrement_up :: "'v mem \<Rightarrow> nat \<Rightarrow> nat \<Rightarrow> nat \<Rightarrow> nat option" where
  "decrement_up m nl current father =
     (if father \<noteq> nl then do {
        fl \<leftarrow> rd n_left m father;
        if current = fl then do {
          fp \<leftarrow> rd n_p m father;
          decrement_up m nl father fp }
        else Some father }
      else Some father)"

declare decrement_up.simps [code]

definition decrement :: "'v mem \<Rightarrow> rb_tree \<Rightarrow> nat \<Rightarrow> nat option" where
  "decrement m t current =
     (if current = nil t then maximum m (nil t) (root t)
      else do {
        l \<leftarrow> rd n_left m current;
        if l \<noteq> nil t then maximum m (nil t) l
        else do {
          father \<leftarrow> rd n_p m current;
          decrement_up m (nil t) current father } })"

text \<open>A full forward iteration \<^verbatim>\<open>for (it = begin(); it != end(); ++it)\<close>, collecting
  the nodes it visits.\<close>

partial_function (option) iterate_from :: "'v mem \<Rightarrow> rb_tree \<Rightarrow> nat \<Rightarrow> nat list option" where
  "iterate_from m t it =
     (if it \<noteq> end_it t then do {
        it' \<leftarrow> increment m t it;
        rest \<leftarrow> iterate_from m t it';
        Some (it # rest) }
      else Some [])"

declare iterate_from.simps [code]

definition iterate :: "'v mem \<Rightarrow> rb_tree \<Rightarrow> nat list option" where
  "iterate m t = do { it \<leftarrow> begin_it m t; iterate_from m t it }"

text \<open>\<^verbatim>\<open>copy_tree\<close> (lines 447-486).  The two halves of the loop body copy the right and
  the left child of \<^verbatim>\<open>orig_node\<close> and push the pair on the stack.\<close>

definition copy_right ::
  "nat \<Rightarrow> nat \<Rightarrow> nat \<Rightarrow> nat \<Rightarrow> (nat \<times> nat) list \<Rightarrow> 'v mem
     \<Rightarrow> ((error + (nat \<times> nat) list) \<times> 'v mem) option" where
  "copy_right nl other_nil orig_node copy_node stack m = do {
     orr \<leftarrow> rd n_right m orig_node;
     if orr \<noteq> other_nil then do {
       v \<leftarrow> rd n_val m orr;
       case create_node m v of
         (Inl e, m) \<Rightarrow> Some (Inl e, m)
       | (Inr a, m) \<Rightarrow> do {
           m \<leftarrow> wr_right copy_node a m;
           c \<leftarrow> rd n_color m orr;
           m \<leftarrow> wr_color a c m;
           m \<leftarrow> wr_p a copy_node m;
           m \<leftarrow> wr_left a nl m;
           m \<leftarrow> wr_right a nl m;
           Some (Inr ((orr, a) # stack), m) } }
     else do {
       m \<leftarrow> wr_right copy_node nl m;
       Some (Inr stack, m) } }"

definition copy_left ::
  "nat \<Rightarrow> nat \<Rightarrow> nat \<Rightarrow> nat \<Rightarrow> (nat \<times> nat) list \<Rightarrow> 'v mem
     \<Rightarrow> ((error + (nat \<times> nat) list) \<times> 'v mem) option" where
  "copy_left nl other_nil orig_node copy_node stack m = do {
     ol \<leftarrow> rd n_left m orig_node;
     if ol \<noteq> other_nil then do {
       v \<leftarrow> rd n_val m ol;
       case create_node m v of
         (Inl e, m) \<Rightarrow> Some (Inl e, m)
       | (Inr a, m) \<Rightarrow> do {
           m \<leftarrow> wr_left copy_node a m;
           c \<leftarrow> rd n_color m ol;
           m \<leftarrow> wr_color a c m;
           m \<leftarrow> wr_p a copy_node m;
           m \<leftarrow> wr_left a nl m;
           m \<leftarrow> wr_right a nl m;
           Some (Inr ((ol, a) # stack), m) } }
     else do {
       m \<leftarrow> wr_left copy_node nl m;
       Some (Inr stack, m) } }"

partial_function (option) copy_loop ::
  "nat \<Rightarrow> nat \<Rightarrow> (nat \<times> nat) list \<Rightarrow> 'v mem \<Rightarrow> ((error + unit) \<times> 'v mem) option" where
  "copy_loop nl other_nil stack m =
     (case stack of
        [] \<Rightarrow> Some (Inr (), m)
      | pr # stack \<Rightarrow> do {
          (r, m) \<leftarrow> copy_right nl other_nil (fst pr) (snd pr) stack m;
          case r of
            Inl e \<Rightarrow> Some (Inl e, m)
          | Inr stack \<Rightarrow> do {
              (r, m) \<leftarrow> copy_left nl other_nil (fst pr) (snd pr) stack m;
              case r of
                Inl e \<Rightarrow> Some (Inl e, m)
              | Inr stack \<Rightarrow> copy_loop nl other_nil stack m } })"

declare copy_loop.simps [code]

definition copy_tree ::
  "'v mem \<Rightarrow> rb_tree \<Rightarrow> nat \<Rightarrow> nat \<Rightarrow> ((error + unit) \<times> 'v mem \<times> rb_tree) option" where
  "copy_tree m t other_root other_nil = do {
     t \<leftarrow> Some (if other_root = other_nil then t\<lparr>root := nil t\<rparr> else t);
     v \<leftarrow> rd n_val m other_root;
     case create_node m v of
       (Inl e, m) \<Rightarrow> Some (Inl e, m, t)
     | (Inr new_root, m) \<Rightarrow> do {
         c \<leftarrow> rd n_color m other_root;
         m \<leftarrow> wr_color new_root c m;
         m \<leftarrow> wr_p new_root (nil t) m;
         (r, m) \<leftarrow> copy_loop (nil t) other_nil [(other_root, new_root)] m;
         Some (r, m, t\<lparr>root := new_root\<rparr>) } }"

text \<open>The copy constructor \<^verbatim>\<open>Rb_tree(const Rb_tree &other)\<close> (lines 84-107).  A throw
  leaves no object: the result is then the error and the store.  When the first
  \<^verbatim>\<open>create_node\<close> throws, the handler compares the members \<^verbatim>\<open>root\<close> and \<^verbatim>\<open>nil_\<close>
  before either was assigned; that run has no defined result.\<close>

definition Rb_tree_copy :: "'v \<Rightarrow> 'v mem \<Rightarrow> rb_tree \<Rightarrow> ((error + rb_tree) \<times> 'v mem) option" where
  "Rb_tree_copy dflt m other =
     (case create_node m dflt of
        (Inl e, m) \<Rightarrow> None
      | (Inr a, m) \<Rightarrow> do {
          m \<leftarrow> wr_color a Black m;
          m \<leftarrow> wr_p a a m;
          m \<leftarrow> wr_right a a m;
          m \<leftarrow> wr_left a a m;
          (r, m, t) \<leftarrow> (if root other \<noteq> nil other
                         then copy_tree m \<lparr>root = a, nil = a, node_count = 0\<rparr> (root other) (nil other)
                         else Some (Inr (), m, \<lparr>root = a, nil = a, node_count = 0\<rparr>));
          case r of
            Inr u \<Rightarrow> Some (Inr (t\<lparr>node_count := node_count other\<rparr>), m)
          | Inl e \<Rightarrow> do {
              (m, t) \<leftarrow> (if root t \<noteq> nil t then clear m t else Some (m, t));
              Some (Inl e, m) } })"

section \<open>The facades\<close>

text \<open>\<^verbatim>\<open>set::insert\<close>, \<^verbatim>\<open>map::insert\<close> and \<^verbatim>\<open>multiset::insert\<close>: the key-extraction
  functor is the identity for \<^verbatim>\<open>set\<close> and \<^verbatim>\<open>multiset\<close> and \<^verbatim>\<open>Select1st\<close> for
  \<^verbatim>\<open>map\<close>; \<^verbatim>\<open>unique_keys\<close> is true for \<^verbatim>\<open>set\<close> and \<^verbatim>\<open>map\<close>, false for
  \<^verbatim>\<open>multiset\<close>.\<close>

definition set_insert ::
  "('k::linorder) mem \<Rightarrow> rb_tree \<Rightarrow> 'k \<Rightarrow> ((error + nat \<times> bool) \<times> 'k mem \<times> rb_tree) option" where
  "set_insert m t v = insert (\<lambda>x. x) m t v v True"

definition map_insert ::
  "('k::linorder \<times> 'a) mem \<Rightarrow> rb_tree \<Rightarrow> 'k \<times> 'a
     \<Rightarrow> ((error + nat \<times> bool) \<times> ('k \<times> 'a) mem \<times> rb_tree) option" where
  "map_insert m t v = insert fst m t (fst v) v True"

definition multiset_insert ::
  "('k::linorder) mem \<Rightarrow> rb_tree \<Rightarrow> 'k \<Rightarrow> ((error + nat) \<times> 'k mem \<times> rb_tree) option" where
  "multiset_insert m t v = do {
     (r, m, t) \<leftarrow> insert (\<lambda>x. x) m t v v False;
     Some (map_sum (\<lambda>e. e) fst r, m, t) }"

text \<open>\<^verbatim>\<open>erase(iterator pos)\<close> for an iterator of this container, and \<^verbatim>\<open>erase(key)\<close>
  of \<^verbatim>\<open>set\<close> and \<^verbatim>\<open>multiset\<close>.\<close>

definition erase :: "'v mem \<Rightarrow> rb_tree \<Rightarrow> nat \<Rightarrow> ('v mem \<times> rb_tree) option" where
  "erase m t pos = delete_node m t pos"

definition erase_key :: "('k::linorder) mem \<Rightarrow> rb_tree \<Rightarrow> 'k \<Rightarrow> ('k mem \<times> rb_tree) option" where
  "erase_key m t key = do { node \<leftarrow> search (\<lambda>x. x) m t key; delete_node m t node }"

text \<open>\<^verbatim>\<open>multiset::find\<close>, \<^verbatim>\<open>multiset::count\<close> (lines 194-202 of s21_multiset.h) and
  \<^verbatim>\<open>multiset::lower_bound\<close>.\<close>

definition find :: "('k::linorder) mem \<Rightarrow> rb_tree \<Rightarrow> 'k \<Rightarrow> nat option" where
  "find m t key = search (\<lambda>x. x) m t key"

partial_function (option) count_loop ::
  "('k::linorder) mem \<Rightarrow> rb_tree \<Rightarrow> 'k \<Rightarrow> nat \<Rightarrow> 64 word \<Rightarrow> 64 word option" where
  "count_loop m t key it cnt = do {
     v \<leftarrow> rd n_val m it;
     if v = key then do {
       it' \<leftarrow> increment m t it;
       count_loop m t key it' (cnt + 1) }
     else Some cnt }"

declare count_loop.simps [code]

definition count :: "('k::linorder) mem \<Rightarrow> rb_tree \<Rightarrow> 'k \<Rightarrow> 64 word option" where
  "count m t key = do { it \<leftarrow> find m t key; count_loop m t key it 0 }"

definition multiset_lower_bound :: "('k::linorder) mem \<Rightarrow> rb_tree \<Rightarrow> 'k \<Rightarrow> nat option" where
  "multiset_lower_bound m t key = lower_bound (\<lambda>x. x) m t key"

text \<open>\<^verbatim>\<open>insert_many\<close> of \<^verbatim>\<open>set\<close> and \<^verbatim>\<open>map\<close> (s21_set.h lines 223-235, s21_map.h
  lines 291-303): the fold over the arguments, and the handler that erases what
  the batch created.\<close>

fun insert_many_loop ::
  "('v \<Rightarrow> 'k::linorder) \<Rightarrow> 'v list \<Rightarrow> (nat \<times> bool) list \<Rightarrow> 'v mem \<Rightarrow> rb_tree
     \<Rightarrow> ((error + unit) \<times> (nat \<times> bool) list \<times> 'v mem \<times> rb_tree) option" where
  "insert_many_loop kov [] res m t = Some (Inr (), res, m, t)"
| "insert_many_loop kov (a # args) res m t = do {
     (r, m, t) \<leftarrow> insert kov m t (kov a) a True;
     case r of
       Inl e \<Rightarrow> Some (Inl e, res, m, t)
     | Inr it \<Rightarrow> insert_many_loop kov args (res @ [it]) m t }"

fun erase_created :: "(nat \<times> bool) list \<Rightarrow> 'v mem \<Rightarrow> rb_tree \<Rightarrow> ('v mem \<times> rb_tree) option" where
  "erase_created [] m t = Some (m, t)"
| "erase_created (it # res) m t = do {
     (m, t) \<leftarrow> (if snd it then erase m t (fst it) else Some (m, t));
     erase_created res m t }"

definition insert_many ::
  "('v \<Rightarrow> 'k::linorder) \<Rightarrow> 'v mem \<Rightarrow> rb_tree \<Rightarrow> 'v list
     \<Rightarrow> ((error + (nat \<times> bool) list) \<times> 'v mem \<times> rb_tree) option" where
  "insert_many kov m t args = do {
     (r, res, m, t) \<leftarrow> insert_many_loop kov args [] m t;
     case r of
       Inr u \<Rightarrow> Some (Inr res, m, t)
     | Inl e \<Rightarrow> do {
         (m, t) \<leftarrow> erase_created res m t;
         Some (Inl e, m, t) } }"

definition set_insert_many ::
  "('k::linorder) mem \<Rightarrow> rb_tree \<Rightarrow> 'k list
     \<Rightarrow> ((error + (nat \<times> bool) list) \<times> 'k mem \<times> rb_tree) option" where
  "set_insert_many m t args = insert_many (\<lambda>x. x) m t args"

definition map_insert_many ::
  "('k::linorder \<times> 'a) mem \<Rightarrow> rb_tree \<Rightarrow> ('k \<times> 'a) list
     \<Rightarrow> ((error + (nat \<times> bool) list) \<times> ('k \<times> 'a) mem \<times> rb_tree) option" where
  "map_insert_many m t args = insert_many fst m t args"

text \<open>\<^verbatim>\<open>multiset::insert_many\<close> (s21_multiset.h lines 276-287): every result is pushed
  with \<^verbatim>\<open>true\<close>, and the handler erases them all.\<close>

fun multiset_insert_many_loop ::
  "'k list \<Rightarrow> (nat \<times> bool) list \<Rightarrow> ('k::linorder) mem \<Rightarrow> rb_tree
     \<Rightarrow> ((error + unit) \<times> (nat \<times> bool) list \<times> 'k mem \<times> rb_tree) option" where
  "multiset_insert_many_loop [] res m t = Some (Inr (), res, m, t)"
| "multiset_insert_many_loop (a # args) res m t = do {
     (r, m, t) \<leftarrow> multiset_insert m t a;
     case r of
       Inl e \<Rightarrow> Some (Inl e, res, m, t)
     | Inr it \<Rightarrow> multiset_insert_many_loop args (res @ [(it, True)]) m t }"

fun erase_all :: "(nat \<times> bool) list \<Rightarrow> 'v mem \<Rightarrow> rb_tree \<Rightarrow> ('v mem \<times> rb_tree) option" where
  "erase_all [] m t = Some (m, t)"
| "erase_all (it # res) m t = do {
     (m, t) \<leftarrow> erase m t (fst it);
     erase_all res m t }"

definition multiset_insert_many ::
  "('k::linorder) mem \<Rightarrow> rb_tree \<Rightarrow> 'k list
     \<Rightarrow> ((error + (nat \<times> bool) list) \<times> 'k mem \<times> rb_tree) option" where
  "multiset_insert_many m t args = do {
     (r, res, m, t) \<leftarrow> multiset_insert_many_loop args [] m t;
     case r of
       Inr u \<Rightarrow> Some (Inr res, m, t)
     | Inl e \<Rightarrow> do {
         (m, t) \<leftarrow> erase_all res m t;
         Some (Inl e, m, t) } }"

text \<open>A container filled by successive calls of \<^verbatim>\<open>insert\<close> on a fresh tree, as the
  tests build their fixtures.\<close>

fun insert_all ::
  "('v \<Rightarrow> 'k::linorder) \<Rightarrow> bool \<Rightarrow> 'v list \<Rightarrow> 'v mem \<Rightarrow> rb_tree \<Rightarrow> ('v mem \<times> rb_tree) option" where
  "insert_all kov unique_keys [] m t = Some (m, t)"
| "insert_all kov unique_keys (a # as) m t = do {
     (r, m, t) \<leftarrow> insert kov m t (kov a) a unique_keys;
     insert_all kov unique_keys as m t }"

definition tree_of_list ::
  "('v \<Rightarrow> 'k::linorder) \<Rightarrow> bool \<Rightarrow> 'v \<Rightarrow> 'v list \<Rightarrow> 'v mem \<Rightarrow> ('v mem \<times> rb_tree) option" where
  "tree_of_list kov unique_keys dflt as m = do {
     (r, m) \<leftarrow> Rb_tree dflt m;
     case r of Inl e \<Rightarrow> None | Inr t \<Rightarrow> insert_all kov unique_keys as m t }"

section \<open>The tree a store holds\<close>

datatype tr = Lf | Nd tr nat tr

fun nodes :: "tr \<Rightarrow> nat set" where
  "nodes Lf = {}"
| "nodes (Nd l x r) = Set.insert x (nodes l \<union> nodes r)"

fun inorder :: "tr \<Rightarrow> nat list" where
  "inorder Lf = []"
| "inorder (Nd l x r) = inorder l @ x # inorder r"

fun shape :: "'v mem \<Rightarrow> nat \<Rightarrow> nat \<Rightarrow> nat \<Rightarrow> tr \<Rightarrow> bool" where
  "shape m nl q a Lf = (a = nl)"
| "shape m nl q a (Nd l x r) =
     (a = x \<and> x \<noteq> nl \<and> n_live m x \<and> n_p m x = q \<and>
      shape m nl x (n_left m x) l \<and> shape m nl x (n_right m x) r)"

definition sentinel_ok :: "'v mem \<Rightarrow> nat \<Rightarrow> bool" where
  "sentinel_ok m nl = (n_live m nl \<and> n_color m nl = Black \<and> n_left m nl = nl \<and> n_right m nl = nl)"

definition keys_of :: "('v \<Rightarrow> 'k) \<Rightarrow> 'v mem \<Rightarrow> tr \<Rightarrow> 'k list" where
  "keys_of kov m T = map (\<lambda>a. kov (n_val m a)) (inorder T)"

definition bst_inv :: "('v \<Rightarrow> 'k::linorder) \<Rightarrow> 'v mem \<Rightarrow> rb_tree \<Rightarrow> tr \<Rightarrow> bool" where
  "bst_inv kov m t T =
     (sentinel_ok m (nil t) \<and> shape m (nil t) (nil t) (root t) T \<and>
      distinct (inorder T) \<and> sorted (keys_of kov m T))"

definition ex_m :: "int mem" where
  "ex_m = fst (the (tree_of_list (\<lambda>x. x) True 0 [2, 1, 3] (mem0 [])))"

definition ex_t :: "rb_tree" where
  "ex_t = snd (the (tree_of_list (\<lambda>x. x) True (0::int) [2, 1, 3] (mem0 [])))"

definition ex_T :: "tr" where
  "ex_T = Nd (Nd Lf 3 Lf) 2 (Nd Lf 4 Lf)"

section \<open>Properties\<close>

lemma rd_live [simp]: "n_live m a \<Longrightarrow> rd f m a = Some (f m a)"
  by (simp add: rd_def)

lemma set_inorder [simp]: "set (inorder T) = nodes T"
  by (induction T) auto

lemma shape_nl: "shape m nl q a T \<Longrightarrow> nl \<notin> nodes T"
  by (induction T arbitrary: q a) auto

lemma shape_live: "shape m nl q a T \<Longrightarrow> x \<in> nodes T \<Longrightarrow> n_live m x"
  by (induction T arbitrary: q a) auto

lemma minimum_shape:
  "shape m nl q a (Nd l x r) \<Longrightarrow> minimum m nl a = Some (hd (inorder (Nd l x r)))"
proof (induction l arbitrary: q a x r)
  case Lf
  then show ?case by (subst minimum.simps) simp
next
  case (Nd l1 y l2)
  from Nd.prems have s: "shape m nl x (n_left m x) (Nd l1 y l2)" and a: "a = x" "n_live m x"
    by simp_all
  from s have "n_left m x = y" "y \<noteq> nl" by simp_all
  moreover from Nd.IH(1)[OF s] have "minimum m nl (n_left m x) = Some (hd (inorder (Nd l1 y l2)))" .
  ultimately show ?case using a
    by (subst minimum.simps) (simp add: hd_append)
qed

lemma maximum_shape:
  "shape m nl q a (Nd l x r) \<Longrightarrow> maximum m nl a = Some (last (inorder (Nd l x r)))"
proof (induction r arbitrary: q a x l)
  case Lf
  then show ?case by (subst maximum.simps) simp
next
  case (Nd r1 y r2)
  from Nd.prems have s: "shape m nl x (n_right m x) (Nd r1 y r2)" and a: "a = x" "n_live m x"
    by simp_all
  from s have "n_right m x = y" "y \<noteq> nl" by simp_all
  moreover from Nd.IH(2)[OF s] have "maximum m nl (n_right m x) = Some (last (inorder (Nd r1 y r2)))" .
  ultimately show ?case using a
    by (subst maximum.simps) simp
qed

lemma search_loop_absent:
  "shape m nl q a T \<Longrightarrow> n_live m nl \<Longrightarrow> \<forall>x\<in>nodes T. kov (n_val m x) \<noteq> key
    \<Longrightarrow> search_loop kov m nl key a (kov (n_val m a)) = Some nl"
proof (induction T arbitrary: q a)
  case Lf
  then show ?case by (subst search_loop.simps) simp
next
  case (Nd l x r)
  from Nd.prems have a: "a = x" "x \<noteq> nl" "n_live m x" "key \<noteq> kov (n_val m x)"
    and sl: "shape m nl x (n_left m x) l" and sr: "shape m nl x (n_right m x) r"
    by auto
  have ll: "n_live m (n_left m x)" using sl Nd.prems(2) by (cases l) auto
  have lr: "n_live m (n_right m x)" using sr Nd.prems(2) by (cases r) auto
  have il: "search_loop kov m nl key (n_left m x) (kov (n_val m (n_left m x))) = Some nl"
    using Nd.IH(1)[OF sl Nd.prems(2)] Nd.prems(3) by simp
  have ir: "search_loop kov m nl key (n_right m x) (kov (n_val m (n_right m x))) = Some nl"
    using Nd.IH(2)[OF sr Nd.prems(2)] Nd.prems(3) by simp
  show ?case using a ll lr il ir
    by (subst search_loop.simps) simp
qed

lemma sorted_hd_le: "sorted xs \<Longrightarrow> x \<in> set xs \<Longrightarrow> hd xs \<le> (x::'a::linorder)"
  by (cases xs) auto

lemma sorted_le_last: "sorted xs \<Longrightarrow> x \<in> set xs \<Longrightarrow> (x::'a::linorder) \<le> last xs"
  by (induction xs) (auto split: if_splits)

lemma ex_bst_inv: "bst_inv (\<lambda>x. x) ex_m ex_t ex_T"
  by code_simp

text \<open>
  C9.  In a store that holds a search tree \<open>T\<close> for the header \<open>t\<close> (\<open>bst_inv\<close>) and is not
  empty, \<^verbatim>\<open>++\<close> on the iterator \<^verbatim>\<open>end()\<close> gives \<^verbatim>\<open>begin()\<close>, which is the first node
  of the in-order sequence and carries a least key; \<^verbatim>\<open>--\<close> on \<^verbatim>\<open>end()\<close> gives the last
  node of the in-order sequence, which carries a greatest key.
\<close>

theorem end_increment_is_minimum_decrement_is_maximum:
  assumes "bst_inv kov m t T" and "root t \<noteq> nil t"
  shows "increment m t (end_it t) = begin_it m t \<and>
         increment m t (end_it t) = Some (hd (inorder T)) \<and>
         hd (inorder T) \<in> nodes T \<and>
         (\<forall>b\<in>nodes T. kov (n_val m (hd (inorder T))) \<le> kov (n_val m b)) \<and>
         decrement m t (end_it t) = Some (last (inorder T)) \<and>
         last (inorder T) \<in> nodes T \<and>
         (\<forall>b\<in>nodes T. kov (n_val m b) \<le> kov (n_val m (last (inorder T))))"
proof -
  from assms obtain l x r where T: "T = Nd l x r"
    by (cases T) (auto simp: bst_inv_def)
  from assms(1) have sh: "shape m (nil t) (nil t) (root t) (Nd l x r)"
    and so: "sorted (keys_of kov m T)"
    by (simp_all add: bst_inv_def T)
  have ne: "inorder T \<noteq> []" by (simp add: T)
  have hdk: "hd (keys_of kov m T) = kov (n_val m (hd (inorder T)))"
    using ne by (simp add: keys_of_def hd_map)
  have lastk: "last (keys_of kov m T) = kov (n_val m (last (inorder T)))"
    using ne by (simp add: keys_of_def last_map)
  have mem: "\<And>b. b \<in> nodes T \<Longrightarrow> kov (n_val m b) \<in> set (keys_of kov m T)"
    by (simp add: keys_of_def)
  have 1: "increment m t (end_it t) = Some (hd (inorder T))"
    using minimum_shape[OF sh] by (simp add: increment_def end_it_def T)
  have 2: "decrement m t (end_it t) = Some (last (inorder T))"
    using maximum_shape[OF sh] by (simp add: decrement_def end_it_def T)
  have 3: "hd (inorder T) \<in> nodes T" using hd_in_set[OF ne] by simp
  have 4: "last (inorder T) \<in> nodes T" using last_in_set[OF ne] by simp
  have 5: "\<forall>b\<in>nodes T. kov (n_val m (hd (inorder T))) \<le> kov (n_val m b)"
    using sorted_hd_le[OF so mem] hdk by simp
  have 6: "\<forall>b\<in>nodes T. kov (n_val m b) \<le> kov (n_val m (last (inorder T)))"
    using sorted_le_last[OF so mem] lastk by simp
  show ?thesis using 1 2 3 4 5 6 by (simp add: begin_it_def increment_def end_it_def)
qed

theorem end_increment_decrement_witness:
  "bst_inv (\<lambda>x. x) ex_m ex_t ex_T \<and> root ex_t \<noteq> nil ex_t \<and>
   increment ex_m ex_t (end_it ex_t) = begin_it ex_m ex_t \<and>
   increment ex_m ex_t (end_it ex_t) = Some 3 \<and>
   decrement ex_m ex_t (end_it ex_t) = Some 4"
proof -
  have h1: "bst_inv (\<lambda>x. x) ex_m ex_t ex_T" by (rule ex_bst_inv)
  have h2: "root ex_t \<noteq> nil ex_t" by code_simp
  from end_increment_is_minimum_decrement_is_maximum[OF h1 h2] h1 h2
  show ?thesis by (auto simp: ex_T_def)
qed

text \<open>
  C10.  In a store that holds a search tree for a \<^verbatim>\<open>set\<close> or \<^verbatim>\<open>multiset\<close> (the key is
  the value), \<^verbatim>\<open>erase(k)\<close> for a key that no node holds returns with the store and the
  header (so the contents and the size) unchanged; and \<^verbatim>\<open>erase(end())\<close> returns with
  the store and the header unchanged, in any container.
\<close>

theorem erase_of_absent_key_or_end_changes_nothing:
  "(bst_inv (\<lambda>x. x) m t T \<longrightarrow> (\<forall>a\<in>nodes T. n_val m a \<noteq> k) \<longrightarrow> erase_key m t k = Some (m, t)) \<and>
   erase m' t' (end_it t') = Some (m', t')"
proof -
  have "erase_key m t k = Some (m, t)"
    if inv: "bst_inv (\<lambda>x. x) m t T" and ab: "\<forall>a\<in>nodes T. n_val m a \<noteq> k"
  proof -
    from inv have sh: "shape m (nil t) (nil t) (root t) T" and lv: "n_live m (nil t)"
      by (simp_all add: bst_inv_def sentinel_ok_def)
    have lr: "n_live m (root t)" using sh lv by (cases T) auto
    show ?thesis
      using search_loop_absent[OF sh lv, of "\<lambda>x. x" k] ab lr
      by (simp add: erase_key_def search_def delete_node_def)
  qed
  then show ?thesis by (simp add: erase_def end_it_def delete_node_def)
qed

theorem erase_of_absent_key_witness:
  "bst_inv (\<lambda>x. x) ex_m ex_t ex_T \<and>
   n_val ex_m 2 \<noteq> 7 \<and> n_val ex_m 3 \<noteq> 7 \<and> n_val ex_m 4 \<noteq> 7 \<and>
   erase_key ex_m ex_t 7 = Some (ex_m, ex_t) \<and>
   erase ex_m ex_t (end_it ex_t) = Some (ex_m, ex_t)"
proof -
  have h1: "bst_inv (\<lambda>x. x) ex_m ex_t ex_T" by (rule ex_bst_inv)
  have h2: "n_val ex_m 2 \<noteq> 7 \<and> n_val ex_m 3 \<noteq> 7 \<and> n_val ex_m 4 \<noteq> 7" by code_simp
  then have h3: "\<forall>a\<in>nodes ex_T. n_val ex_m a \<noteq> 7" by (simp add: ex_T_def)
  from erase_of_absent_key_or_end_changes_nothing[of ex_m ex_t ex_T 7 ex_m ex_t] h1 h2 h3
  show ?thesis by blast
qed

section \<open>Evaluations at concrete inputs\<close>

text \<open>
  C7, at the multiset built by inserting 10, 5, 15: iteration yields 5, 10, 15, so the
  first element not less than 7 is 10, but \<^verbatim>\<open>lower_bound(7)\<close> returns \<^verbatim>\<open>end()\<close>.
  The search descends 10, 5 and falls off to the right of 5; the last node visited is
  less than the key, and the larger ancestor is forgotten.
\<close>

theorem lower_bound_skips_larger_ancestor:
  "do { (m, t) \<leftarrow> tree_of_list (\<lambda>x. x) False (0::int) [10, 5, 15] (mem0 []);
        ns \<leftarrow> iterate m t;
        lb \<leftarrow> multiset_lower_bound m t 7;
        Some (map (n_val m) ns, lb = end_it t) }
   = Some ([5, 10, 15], True)"
  by code_simp

text \<open>
  C8, at the multiset built by inserting 3, 3, 3: iteration yields 3, 3, 3, but
  \<^verbatim>\<open>count(3)\<close> returns 2.  \<^verbatim>\<open>find\<close> stops at the root, which the rotation of the
  third insertion made the middle one of the three equal elements, and the walk
  only goes forward from there.
\<close>

theorem count_misses_equal_element_left_of_root:
  "do { (m, t) \<leftarrow> tree_of_list (\<lambda>x. x) False (0::int) [3, 3, 3] (mem0 []);
        ns \<leftarrow> iterate m t;
        c \<leftarrow> count m t 3;
        Some (map (n_val m) ns, c) }
   = Some ([3, 3, 3], 2)"
  by code_simp

text \<open>
  C5, at the tree built by inserting 2, 1, 3, with the third \<^verbatim>\<open>create_node\<close> of the
  copy throwing (the sentinel and the root are copied, the root's right child is
  not): the handler's \<^verbatim>\<open>clear()\<close> follows the root's \<^verbatim>\<open>left\<close>, still
  \<^verbatim>\<open>nullptr\<close>, and the run has no result.  At the tree built by inserting
  10, 5, 15, 3 with the fifth \<^verbatim>\<open>create_node\<close> throwing, the handler frees the three
  copied nodes and rethrows, and the sentinel allocated by the constructor
  (address 6) stays allocated.
\<close>

theorem copy_failure_faults_or_leaks_sentinel:
  "do { (m, t) \<leftarrow> tree_of_list (\<lambda>x. x) True (0::int) [2, 1, 3] (mem0 []);
        Some (Rb_tree_copy 0 (m\<lparr>script := [False, False, True]\<rparr>) t = None) }
   = Some True
   \<and>
   do { (m, t) \<leftarrow> tree_of_list (\<lambda>x. x) True (0::int) [10, 5, 15, 3] (mem0 []);
        (r, m') \<leftarrow> Rb_tree_copy 0 (m\<lparr>script := [False, False, False, False, True]\<rparr>) t;
        Some (r, filter (n_live m) [0..<brk m'], filter (n_live m') [0..<brk m']) }
   = Some (Inl Bad_alloc, [1, 2, 3, 4, 5], [1, 2, 3, 4, 5, 6])"
  by code_simp

text \<open>
  C6 fails as stated: in the set built by inserting 1, 2, erasing 2 makes
  \<^verbatim>\<open>transplant\<close> assign the sentinel's parent link, which then points at the root.
\<close>

theorem sentinel_parent_after_delete_counterexample:
  "do { (m, t) \<leftarrow> tree_of_list (\<lambda>x. x) True (0::int) [1, 2] (mem0 []);
        z \<leftarrow> search (\<lambda>x. x) m t 2;
        (m, t) \<leftarrow> delete_node m t z;
        Some (n_p m (nil t) = nil t, n_p m (nil t) = root t, root t = nil t) }
   = Some (False, True, False)"
  by code_simp

end
